theory Spec2Isabelle
  imports Main
begin

section \<open>check\_seeds.py: the seed URL checker\<close>

text \<open>
  The program pages through a collection API (\<^verbatim>\<open>main\<close>, \<^verbatim>\<open>get_seeds\<close>) and
  validates every seed URL it is served (\<^verbatim>\<open>check_url\<close>). All three functions talk to
  the network, so the embedding makes the network an explicit argument:
  \<^item> \<^verbatim>\<open>check_url\<close> receives a record of the collaborators it calls
    (\<^verbatim>\<open>requests.head\<close>, \<^verbatim>\<open>urlparse\<close>, the \<^verbatim>\<open>RobotFileParser\<close> methods), each of
    which either raises or returns;
  \<^item> \<^verbatim>\<open>main\<close> receives the replies of its successive \<^verbatim>\<open>requests.get\<close> calls as a
    list, one reply per call, in call order.
\<close>

subsection \<open>Exceptions and messages\<close>

text \<open>
  The exception classes \<^verbatim>\<open>check_url\<close> tells apart. Each value carries the text that
  \<^verbatim>\<open>str(e)\<close> gives. The three \<^verbatim>\<open>requests\<close> classes are pairwise unrelated, so the
  order of the handlers does not matter and a datatype renders them. Only instances of
  \<^verbatim>\<open>Exception\<close> are modelled (\<^verbatim>\<open>KeyboardInterrupt\<close> and \<^verbatim>\<open>SystemExit\<close> are not
  behaviours of a collaborator).
\<close>

datatype exn =
    Timeout string
  | TooManyRedirects string
  | SSLError string
  | OtherException string

fun str_exn :: "exn \<Rightarrow> string" where
  "str_exn (Timeout d) = d"
| "str_exn (TooManyRedirects d) = d"
| "str_exn (SSLError d) = d"
| "str_exn (OtherException d) = d"

text \<open>
  \<^verbatim>\<open>response_msg\<close> holds a string in every branch but the last handler, which stores
  the exception object itself (\<^verbatim>\<open>response_msg = e\<close>). The only use \<^verbatim>\<open>main\<close> makes of
  the message is \<^verbatim>\<open>str.format\<close>, which renders an exception as \<^verbatim>\<open>str(e)\<close>.
\<close>

datatype msg = Str string | Exc exn

fun format_msg :: "msg \<Rightarrow> string" where
  "format_msg (Str s) = s"
| "format_msg (Exc e) = str_exn e"

subsection \<open>The collaborators of \<^verbatim>\<open>check_url\<close>\<close>

text \<open>
  A response of \<^verbatim>\<open>requests.head\<close>: the status code and the header mapping, read
  through \<^verbatim>\<open>'Location' in response.headers\<close> and \<^verbatim>\<open>response.headers['Location']\<close>.
  \<open>headers r k\<close> is the lookup of the name \<open>k\<close> as that mapping performs it (the
  mapping of \<^verbatim>\<open>requests\<close> compares names without regard to case).
\<close>

record response =
  status_code :: int
  headers :: "string \<rightharpoonup> string"

text \<open>The six components of \<^verbatim>\<open>urlparse\<close>'s result.\<close>

record parsed_uri =
  scheme :: string
  netloc :: string
  path :: string
  params :: string
  query :: string
  fragment :: string

text \<open>
  The network as one call of \<^verbatim>\<open>check_url\<close> sees it. \<open>'rp\<close> is the state of a
  \<^verbatim>\<open>RobotFileParser\<close> after \<^verbatim>\<open>set_url\<close> and \<^verbatim>\<open>read\<close>.
  \<^item> \<open>head_req url\<close>: \<^verbatim>\<open>requests.head(url, timeout=30, allow_redirects=False)\<close>;
  \<^item> \<open>urlparse url\<close>: \<^verbatim>\<open>urlparse(url)\<close>;
  \<^item> \<open>rp_read robots_txt\<close>: \<^verbatim>\<open>rp = RobotFileParser(); rp.set_url(robots_txt); rp.read()\<close>;
  \<^item> \<open>rp_crawl_delay rp agent\<close>: \<^verbatim>\<open>rp.crawl_delay(agent)\<close>, whose value is dropped;
  \<^item> \<open>rp_can_fetch rp agent url\<close>: \<^verbatim>\<open>rp.can_fetch(agent, url)\<close>.
\<close>

record 'rp net =
  head_req :: "string \<Rightarrow> exn + response"
  urlparse :: "string \<Rightarrow> exn + parsed_uri"
  rp_read :: "string \<Rightarrow> exn + 'rp"
  rp_crawl_delay :: "'rp \<Rightarrow> string \<Rightarrow> exn + unit"
  rp_can_fetch :: "'rp \<Rightarrow> string \<Rightarrow> string \<Rightarrow> exn + bool"

subsection \<open>\<^verbatim>\<open>check_url\<close>\<close>

text \<open>The three local variables of \<^verbatim>\<open>check_url\<close>.\<close>

record locals =
  response_status :: bool
  response_code :: int
  response_msg :: msg

text \<open>
  A block that may raise returns \<open>Inl (e, s)\<close>, the exception with the locals as they
  were when it was raised, or \<open>Inr s\<close>.
\<close>

type_synonym outcome = "(exn \<times> locals) + locals"

text \<open>\<^verbatim>\<open>'{uri.scheme}://{uri.netloc}/robots.txt'.format(uri=parsed_uri)\<close>\<close>

definition robots_txt_of :: "parsed_uri \<Rightarrow> string" where
  "robots_txt_of uri = scheme uri @ ''://'' @ netloc uri @ ''/robots.txt''"

text \<open>The branch \<^verbatim>\<open>if response_code == 200\<close> (lines 143 to 155).\<close>

definition robots_branch :: "'rp net \<Rightarrow> string \<Rightarrow> locals \<Rightarrow> outcome" where
  "robots_branch nw url s =
     (case urlparse nw url of
        Inl e \<Rightarrow> Inl (e, s)
      | Inr uri \<Rightarrow>
          (let robots_txt = robots_txt_of uri in
           case rp_read nw robots_txt of
             Inl e \<Rightarrow> Inl (e, s)
           | Inr rp \<Rightarrow>
               (case rp_crawl_delay nw rp ''*'' of
                  Inl e \<Rightarrow> Inl (e, s)
                | Inr _ \<Rightarrow>
                    (case rp_can_fetch nw rp ''CoherenceBot'' url of
                       Inl e \<Rightarrow> Inl (e, s)
                     | Inr allowed \<Rightarrow>
                         if allowed
                         then Inr (s\<lparr>response_status := True, response_msg := Str ''Accepted''\<rparr>)
                         else Inr (s\<lparr>response_msg := Str ''Robot exclusion''\<rparr>)))))"

text \<open>
  The \<^verbatim>\<open>if\<close>/\<^verbatim>\<open>elif\<close> chain on \<^verbatim>\<open>response_code\<close> (lines 142 to 197), in the order of
  the source. The chain has no \<^verbatim>\<open>else\<close>: a code that matched no test would leave the
  locals as they are.
\<close>

definition status_chain :: "'rp net \<Rightarrow> string \<Rightarrow> response \<Rightarrow> locals \<Rightarrow> outcome" where
  "status_chain nw url resp s =
     (let c = response_code s in
      if c = 200 then robots_branch nw url s
      else if c = 206 then Inr (s\<lparr>response_msg := Str ''No content''\<rparr>)
      else if c > 200 \<and> c < 300 then Inr (s\<lparr>response_msg := Str ''Other 2xx''\<rparr>)
      else if c \<ge> 300 \<and> c < 400 then
        (case headers resp ''Location'' of
           Some loc \<Rightarrow> Inr (s\<lparr>response_msg := Str loc\<rparr>)
         | None \<Rightarrow> Inr (s\<lparr>response_msg := Str ''Redirect without location''\<rparr>))
      else if c = 400 then Inr (s\<lparr>response_msg := Str ''Bad Request''\<rparr>)
      else if c = 401 then Inr (s\<lparr>response_msg := Str ''Unauthorized''\<rparr>)
      else if c = 402 then Inr (s\<lparr>response_msg := Str ''Payment required''\<rparr>)
      else if c = 403 then Inr (s\<lparr>response_msg := Str ''Forbidden''\<rparr>)
      else if c = 405 then Inr (s\<lparr>response_msg := Str ''Method not allowed''\<rparr>)
      else if c = 404 then Inr (s\<lparr>response_msg := Str ''Not found''\<rparr>)
      else if c = 406 then Inr (s\<lparr>response_msg := Str ''Not acceptable''\<rparr>)
      else if c \<ge> 400 \<and> c < 500 then Inr (s\<lparr>response_msg := Str ''Other 4xx''\<rparr>)
      else if c < 200 then Inr (s\<lparr>response_msg := Str ''Partial response''\<rparr>)
      else if c \<ge> 500 then Inr (s\<lparr>response_msg := Str ''Server error''\<rparr>)
      else Inr s)"

text \<open>The body of the \<^verbatim>\<open>try\<close> (lines 140 to 197).\<close>

definition try_body :: "'rp net \<Rightarrow> string \<Rightarrow> locals \<Rightarrow> outcome" where
  "try_body nw url s =
     (case head_req nw url of
        Inl e \<Rightarrow> Inl (e, s)
      | Inr resp \<Rightarrow> status_chain nw url resp (s\<lparr>response_code := status_code resp\<rparr>))"

text \<open>
  The four \<^verbatim>\<open>except\<close> clauses (lines 199 to 206): each assigns \<^verbatim>\<open>response_msg\<close>, the
  last one the exception itself.
\<close>

fun except_msg :: "exn \<Rightarrow> msg" where
  "except_msg (Timeout d) = Str ''Timeout after 30s''"
| "except_msg (TooManyRedirects d) = Str ''Too many redirects''"
| "except_msg (SSLError d) = Str ''SSL error''"
| "except_msg (OtherException d) = Exc (OtherException d)"

text \<open>\<^verbatim>\<open>check_url\<close> returns the list \<^verbatim>\<open>[response_status, response_code, response_msg]\<close>.\<close>

definition check_url :: "'rp net \<Rightarrow> string \<Rightarrow> bool \<times> int \<times> msg" where
  "check_url nw url =
     (let s0 = \<lparr>response_status = False, response_code = 0, response_msg = Str ''''\<rparr>;
          s = (case try_body nw url s0 of
                 Inl (e, s') \<Rightarrow> s'\<lparr>response_msg := except_msg e\<rparr>
               | Inr s' \<Rightarrow> s')
      in (response_status s, response_code s, response_msg s))"

subsection \<open>The collection API\<close>

text \<open>
  One entry of \<^verbatim>\<open>api_response['results']\<close>, with the four fields the loop reads
  (\<^verbatim>\<open>collection['url']\<close>, \<^verbatim>\<open>['title']\<close>, \<^verbatim>\<open>['uuid']\<close>, \<^verbatim>\<open>['org']['slug']\<close>). The
  entries are taken as the API documents them, with all four fields present.
\<close>

record seed =
  url :: string
  title :: string
  uuid :: string
  org_slug :: string

text \<open>
  The JSON object of one page. Both documented keys are optional:
  \<^item> \<open>pg_next = None\<close>: no key \<^verbatim>\<open>'next'\<close>; \<open>Some None\<close>: the key holds \<^verbatim>\<open>null\<close>;
    \<open>Some (Some u)\<close>: the key holds the URL \<open>u\<close>;
  \<^item> \<open>pg_results = None\<close>: no key \<^verbatim>\<open>'results'\<close>;
  \<^item> \<open>pg_other_keys\<close>: the other keys of the object (a count, a previous link).
\<close>

record api_page =
  pg_next :: "string option option"
  pg_results :: "seed list option"
  pg_other_keys :: "string list"

text \<open>
  What \<^verbatim>\<open>requests.get\<close> does in one call of \<^verbatim>\<open>get_seeds\<close>: it raises, or it returns a
  response with a status code and a body. The body is \<open>None\<close> when
  \<^verbatim>\<open>response.json()\<close> raises or returns \<^verbatim>\<open>null\<close>, and \<open>Some p\<close> when it returns the
  object \<open>p\<close>.
\<close>

datatype http_reply =
    GetRaised exn
  | GetResponse int "api_page option"

text \<open>
  \<^verbatim>\<open>get_seeds\<close> (lines 102 to 131). Its arguments \<^verbatim>\<open>collection_endpoint\<close> and
  \<^verbatim>\<open>cluster\<close> only shape the request; the reply to that request is the argument here.
  In the branch for a status other than 200 the \<^verbatim>\<open>print\<close> names a variable
  \<^verbatim>\<open>endpoint\<close> that \<^verbatim>\<open>get_seeds\<close> does not have; the \<^verbatim>\<open>NameError\<close> is caught by the
  function's own \<^verbatim>\<open>except\<close>, which returns \<^verbatim>\<open>None\<close> as well.
\<close>

fun get_seeds :: "http_reply \<Rightarrow> api_page option" where
  "get_seeds (GetRaised e) = None"
| "get_seeds (GetResponse status body) = (if status = 200 then body else None)"

text \<open>
  Python's truth value of \<^verbatim>\<open>api_response\<close>: \<^verbatim>\<open>None\<close> is false, and a dict is false
  exactly when it has no key.
\<close>

fun truthy :: "api_page option \<Rightarrow> bool" where
  "truthy None = False"
| "truthy (Some p) = (pg_next p \<noteq> None \<or> pg_results p \<noteq> None \<or> pg_other_keys p \<noteq> [])"

subsection \<open>\<^verbatim>\<open>main\<close>\<close>

text \<open>The command line: \<^verbatim>\<open>args.endpoint\<close> and \<^verbatim>\<open>args.n\<close>.\<close>

record args =
  endpoint :: string
  n :: int

text \<open>What \<^verbatim>\<open>main\<close> prints to standard output, one constructor per \<^verbatim>\<open>print\<close>.\<close>

datatype log_line =
    Checking string int int int
  | NoResponse string
  | FailureAfterThreeRetries string
  | VerificationSucceeded int string string string
  | VerificationFailed int string string string int string
  | ExitingLoop int
  | Processed int int int

text \<open>The lines of the report: the header and one row per failed URL.\<close>

datatype tsv_line =
    Header
  | Row string string string int string

text \<open>The variables of \<^verbatim>\<open>main\<close> that the loops change, and the two output streams.\<close>

record run_state =
  page :: int
  count :: int
  successes :: int
  failures :: int
  retries :: int
  tsv_file :: "tsv_line list"
  stdout :: "log_line list"

definition init_state :: run_state where
  "init_state =
     \<lparr>page = 0, count = 0, successes = 0, failures = 0, retries = 0,
      tsv_file = [Header], stdout = []\<rparr>"

definition clusters :: "string list" where
  "clusters = [''us-east-2'', ''eu-central-1'', ''ap-northeast-1'']"

text \<open>
  The body of \<^verbatim>\<open>for collection in api_response['results']\<close> up to the flush (lines 61
  to 82). \<open>w k\<close> is the network as the \<open>k\<close>-th call of \<^verbatim>\<open>check_url\<close> finds it.
\<close>

definition validate_seed :: "(int \<Rightarrow> 'rp net) \<Rightarrow> seed \<Rightarrow> run_state \<Rightarrow> run_state" where
  "validate_seed w collection s =
     (let s1 = s\<lparr>count := count s + 1\<rparr> in
      case check_url (w (count s1)) (url collection) of
        (success, code, m) \<Rightarrow>
          if success then
            s1\<lparr>stdout := stdout s1 @
                  [VerificationSucceeded (count s1) (url collection) (uuid collection)
                     (org_slug collection)],
               successes := successes s1 + 1\<rparr>
          else
            s1\<lparr>stdout := stdout s1 @
                  [VerificationFailed (count s1) (url collection) (uuid collection)
                     (org_slug collection) code (format_msg m)],
               tsv_file := tsv_file s1 @
                  [Row (url collection) (uuid collection) (org_slug collection) code
                     (format_msg m)],
               failures := failures s1 + 1\<rparr>)"

text \<open>The \<^verbatim>\<open>for\<close> loop over the results of one page, with its \<^verbatim>\<open>break\<close> (lines 60 to 84).\<close>

fun for_results :: "int \<Rightarrow> (int \<Rightarrow> 'rp net) \<Rightarrow> seed list \<Rightarrow> run_state \<Rightarrow> run_state" where
  "for_results lim w [] s = s"
| "for_results lim w (collection # rest) s =
     (let s1 = validate_seed w collection s in
      if lim > 0 \<and> count s1 \<ge> lim then s1 else for_results lim w rest s1)"

text \<open>
  The three groups of assignments and prints in the \<^verbatim>\<open>while\<close> loop that do not depend
  on the reply: the start of an iteration (lines 41 and 42), a reply that is no response
  (lines 45 and 46), and the fourth failure in a row (lines 48 to 50).
\<close>

definition begin_page :: "string \<Rightarrow> run_state \<Rightarrow> run_state" where
  "begin_page cluster s =
     (let s1 = s\<lparr>page := page s + 1\<rparr> in
      s1\<lparr>stdout := stdout s1 @ [Checking cluster (page s1) (successes s1) (failures s1)]\<rparr>)"

definition no_response :: "string \<Rightarrow> run_state \<Rightarrow> run_state" where
  "no_response ep s = s\<lparr>stdout := stdout s @ [NoResponse ep], retries := retries s + 1\<rparr>"

definition give_up :: "string \<Rightarrow> run_state \<Rightarrow> run_state" where
  "give_up ep s = s\<lparr>stdout := stdout s @ [FailureAfterThreeRetries ep], retries := 0\<rparr>"

text \<open>
  The \<^verbatim>\<open>while endpoint is not None\<close> loop of one cluster (lines 40 to 86). Every
  iteration makes one call of \<^verbatim>\<open>get_seeds\<close> and takes the next reply; the result is
  the state at the exit of the loop with the replies not yet used, and \<open>None\<close> when
  the loop asks for a reply after the last one. The test \<^verbatim>\<open>if not api_response\<close> is
  the first \<open>case\<close>: a response that is not truthy is handled as \<^verbatim>\<open>None\<close> is.
\<close>

fun while_endpoint ::
  "int \<Rightarrow> (int \<Rightarrow> 'rp net) \<Rightarrow> string \<Rightarrow> string option \<Rightarrow> http_reply list \<Rightarrow> run_state
     \<Rightarrow> (run_state \<times> http_reply list) option" where
  "while_endpoint lim w cluster None replies s = Some (s, replies)"
| "while_endpoint lim w cluster (Some ep) [] s = None"
| "while_endpoint lim w cluster (Some ep) (reply # replies) s =
     (let s1 = begin_page cluster s;
          api_response = get_seeds reply
      in case (if truthy api_response then api_response else None) of
           None \<Rightarrow>
             (let s2 = no_response ep s1 in
              if retries s2 > 3 then Some (give_up ep s2, replies)
              else while_endpoint lim w cluster (Some ep) replies s2)
         | Some p \<Rightarrow>
             (let ep' = (case pg_next p of Some nxt \<Rightarrow> nxt | None \<Rightarrow> None) in
              case pg_results p of
                None \<Rightarrow> while_endpoint lim w cluster ep' replies s1
              | Some results \<Rightarrow>
                  (let s2 = for_results lim w results s1 in
                   if lim > 0 \<and> count s2 \<ge> lim then Some (s2, replies)
                   else while_endpoint lim w cluster ep' replies s2)))"

text \<open>The \<^verbatim>\<open>for cluster in clusters\<close> loop (lines 37 to 90).\<close>

fun for_clusters ::
  "args \<Rightarrow> (int \<Rightarrow> 'rp net) \<Rightarrow> string list \<Rightarrow> http_reply list \<Rightarrow> run_state
     \<Rightarrow> (run_state \<times> http_reply list) option" where
  "for_clusters a w [] replies s = Some (s, replies)"
| "for_clusters a w (cluster # rest) replies s =
     (case while_endpoint (n a) w cluster (Some (endpoint a)) replies s of
        None \<Rightarrow> None
      | Some (s1, replies1) \<Rightarrow>
          if n a > 0 \<and> count s1 \<ge> n a
          then Some (s1\<lparr>stdout := stdout s1 @ [ExitingLoop (n a)]\<rparr>, replies1)
          else for_clusters a w rest replies1 s1)"

text \<open>
  \<^verbatim>\<open>main\<close>: the loops from the initial state, then the summary line. With the inputs
  typed as above no statement inside the outer \<^verbatim>\<open>try\<close> raises, so its \<^verbatim>\<open>except\<close> has
  no branch here.
\<close>

definition main ::
  "args \<Rightarrow> (int \<Rightarrow> 'rp net) \<Rightarrow> http_reply list \<Rightarrow> (run_state \<times> http_reply list) option" where
  "main a w replies =
     (case for_clusters a w clusters replies init_state of
        None \<Rightarrow> None
      | Some (s, unused) \<Rightarrow>
          Some (s\<lparr>stdout := stdout s @ [Processed (count s) (successes s) (failures s)]\<rparr>,
                unused))"

section \<open>Notions the properties are stated with\<close>

subsection \<open>The documented status brackets\<close>


subsection \<open>The seeds a sequence of replies delivers\<close>

text \<open>
  The number of entries under \<^verbatim>\<open>'results'\<close> in the page of a reply (0 when the fetch
  fails or the page has no such key), and their total over a list of replies.
\<close>

definition seeds_in :: "http_reply \<Rightarrow> int" where
  "seeds_in reply =
     (case get_seeds reply of
        None \<Rightarrow> 0
      | Some p \<Rightarrow> (case pg_results p of None \<Rightarrow> 0 | Some results \<Rightarrow> int (length results)))"

definition delivered :: "http_reply list \<Rightarrow> int" where
  "delivered replies = sum_list (map seeds_in replies)"



subsection \<open>Pages of a collection\<close>



subsection \<open>Example inputs\<close>

text \<open>
  A network for one URL check: the probe, the fetch of the robots file and
  \<^verbatim>\<open>can_fetch\<close> behave as given; the robots file is served only at
  \<^verbatim>\<open>https://example.com/robots.txt\<close>.
\<close>

definition example_uri :: parsed_uri where
  "example_uri =
     \<lparr>scheme = ''https'', netloc = ''example.com'', path = ''/a/b'', params = '''',
      query = ''q=1'', fragment = ''''\<rparr>"

definition example_net :: "(exn + response) \<Rightarrow> (exn + unit) \<Rightarrow> (exn + bool) \<Rightarrow> unit net" where
  "example_net probe fetched allowed =
     \<lparr>head_req = (\<lambda>u. probe),
      urlparse = (\<lambda>u. Inr example_uri),
      rp_read = (\<lambda>r. if r = ''https://example.com/robots.txt'' then fetched
                       else Inl (OtherException ''unknown host'')),
      rp_crawl_delay = (\<lambda>rp agent. Inr ()),
      rp_can_fetch = (\<lambda>rp agent u. allowed)\<rparr>"

definition ok_response :: "int \<Rightarrow> (string \<rightharpoonup> string) \<Rightarrow> exn + response" where
  "ok_response c h = Inr \<lparr>status_code = c, headers = h\<rparr>"

text \<open>A run in which the checks with an even number succeed and the others find a 404.\<close>

definition example_world :: "int \<Rightarrow> unit net" where
  "example_world k =
     example_net (ok_response (if even k then 200 else 404) Map.empty) (Inr ()) (Inr True)"

definition example_seed :: seed where
  "example_seed =
     \<lparr>url = ''https://example.com/a/b?q=1'', title = ''A'', uuid = ''u-1'', org_slug = ''org''\<rparr>"

definition page_reply :: "string option option \<Rightarrow> seed list option \<Rightarrow> http_reply" where
  "page_reply nxt results =
     GetResponse 200 (Some \<lparr>pg_next = nxt, pg_results = results, pg_other_keys = []\<rparr>)"

definition failed_reply :: http_reply where
  "failed_reply = GetRaised (OtherException ''connection refused'')"



text \<open>
  Four failed fetches, each one followed by a page that is served and names the next
  cursor, then a last page for each of the other two clusters.
\<close>

definition interleaved_replies :: "http_reply list" where
  "interleaved_replies =
     [failed_reply, page_reply (Some (Some ''p2'')) (Some []),
      failed_reply, page_reply (Some (Some ''p3'')) (Some []),
      failed_reply, page_reply (Some (Some ''p4'')) (Some []),
      failed_reply, page_reply None (Some []), page_reply None (Some [])]"

section \<open>Properties of \<^verbatim>\<open>check_url\<close>\<close>

subsection \<open>The three ways a check can go\<close>

lemma check_url_probe_raised:
  "head_req nw u = Inl e \<Longrightarrow> check_url nw u = (False, 0, except_msg e)"
  by (simp add: check_url_def try_body_def)

lemma check_url_probe_200:
  assumes "head_req nw u = Inr resp" and "status_code resp = 200"
  shows "check_url nw u =
     (case robots_branch nw u
             \<lparr>response_status = False, response_code = 200, response_msg = Str ''''\<rparr> of
        Inl (e, s') \<Rightarrow> (False, 200, except_msg e)
      | Inr s' \<Rightarrow> (response_status s', 200, response_msg s'))"
  using assms
  by (auto simp: check_url_def try_body_def status_chain_def robots_branch_def Let_def
        split: sum.splits)


lemma validate_seed_failed:
  assumes "check_url (w (count s + 1)) (url c) = (False, code, m)"
  shows "validate_seed w c s =
     s\<lparr>count := count s + 1,
       stdout := stdout s @
         [VerificationFailed (count s + 1) (url c) (uuid c) (org_slug c) code (format_msg m)],
       tsv_file := tsv_file s @ [Row (url c) (uuid c) (org_slug c) code (format_msg m)],
       failures := failures s + 1\<rparr>"
  using assms by (simp add: validate_seed_def Let_def)

subsection \<open>Transport failures\<close>

text \<open>
  C2. When the probe of a URL raises, \<^verbatim>\<open>check_url\<close> returns success false, code 0 and
  the message of the failure: \<^verbatim>\<open>Timeout after 30s\<close> for a timeout, \<^verbatim>\<open>Too many redirects\<close>
  for a redirect chain, \<^verbatim>\<open>SSL error\<close> for a TLS failure, and for any other exception the
  exception, whose text is its description. The run goes on: the seed is counted as a
  failure and reported with code 0 and that text.
\<close>

theorem transport_failure_outcome:
  assumes "head_req nw u = Inl e"
  shows "check_url nw u =
           (False, 0,
            case e of
              Timeout d \<Rightarrow> Str ''Timeout after 30s''
            | TooManyRedirects d \<Rightarrow> Str ''Too many redirects''
            | SSLError d \<Rightarrow> Str ''SSL error''
            | OtherException d \<Rightarrow> Exc (OtherException d)) \<and>
         format_msg (snd (snd (check_url nw u))) =
           (case e of
              Timeout d \<Rightarrow> ''Timeout after 30s''
            | TooManyRedirects d \<Rightarrow> ''Too many redirects''
            | SSLError d \<Rightarrow> ''SSL error''
            | OtherException d \<Rightarrow> d) \<and>
         (w (count s + 1) = nw \<and> url c = u \<longrightarrow>
            validate_seed w c s =
              s\<lparr>count := count s + 1,
                stdout := stdout s @
                  [VerificationFailed (count s + 1) u (uuid c) (org_slug c) 0
                     (format_msg (snd (snd (check_url nw u))))],
                tsv_file := tsv_file s @
                  [Row u (uuid c) (org_slug c) 0 (format_msg (snd (snd (check_url nw u))))],
                failures := failures s + 1\<rparr>)"
proof -
  have r: "check_url nw u = (False, 0, except_msg e)"
    using assms by (rule check_url_probe_raised)
  have "validate_seed w c s =
          s\<lparr>count := count s + 1,
            stdout := stdout s @
              [VerificationFailed (count s + 1) u (uuid c) (org_slug c) 0
                 (format_msg (except_msg e))],
            tsv_file := tsv_file s @ [Row u (uuid c) (org_slug c) 0 (format_msg (except_msg e))],
            failures := failures s + 1\<rparr>"
    if "w (count s + 1) = nw" and "url c = u"
    using validate_seed_failed [of w s c 0 "except_msg e"] r that by simp
  then show ?thesis
    unfolding r by (cases e) simp_all
qed

theorem transport_failure_outcome_witness:
  "head_req (example_net (Inl (Timeout ''read timed out'')) (Inr ()) (Inr True))
     ''https://example.com/a/b?q=1'' = Inl (Timeout ''read timed out'') \<and>
   check_url (example_net (Inl (Timeout ''read timed out'')) (Inr ()) (Inr True))
     ''https://example.com/a/b?q=1'' = (False, 0, Str ''Timeout after 30s'') \<and>
   tsv_file (validate_seed
       (\<lambda>k. example_net (Inl (Timeout ''read timed out'')) (Inr ()) (Inr True))
       example_seed init_state) =
     [Header, Row ''https://example.com/a/b?q=1'' ''u-1'' ''org'' 0 ''Timeout after 30s'']"
  using transport_failure_outcome
    [where nw = "example_net (Inl (Timeout ''read timed out'')) (Inr ()) (Inr True)"
       and u = "''https://example.com/a/b?q=1''" and e = "Timeout ''read timed out''"
       and w = "\<lambda>k. example_net (Inl (Timeout ''read timed out'')) (Inr ()) (Inr True)"
       and c = example_seed and s = init_state]
  by (simp add: example_net_def example_seed_def init_state_def)

subsection \<open>Redirects\<close>

text \<open>
  C7. For a response with a status code from 300 to 399 the outcome is success false with
  that code, and the message is the value of the \<^verbatim>\<open>Location\<close> header when the response
  has one and \<^verbatim>\<open>Redirect without location\<close> when it has none.
\<close>

theorem redirect_outcome:
  assumes "head_req nw u = Inr resp"
    and "300 \<le> status_code resp" and "status_code resp < 400"
  shows "check_url nw u =
           (False, status_code resp,
            case headers resp ''Location'' of
              Some loc \<Rightarrow> Str loc
            | None \<Rightarrow> Str ''Redirect without location'')"
  using assms
  by (simp add: check_url_def try_body_def status_chain_def Let_def split: option.splits)

theorem redirect_outcome_witness:
  "check_url (example_net (ok_response 301 [''Location'' \<mapsto> ''https://example.com/x''])
       (Inr ()) (Inr True)) ''https://example.com/a/b?q=1'' =
     (False, 301, Str ''https://example.com/x'') \<and>
   check_url (example_net (ok_response 301 Map.empty) (Inr ()) (Inr True))
       ''https://example.com/a/b?q=1'' =
     (False, 301, Str ''Redirect without location'')"
  using redirect_outcome
    [of "example_net (ok_response 301 [''Location'' \<mapsto> ''https://example.com/x''])
           (Inr ()) (Inr True)"
        "''https://example.com/a/b?q=1''"
        "\<lparr>status_code = 301, headers = [''Location'' \<mapsto> ''https://example.com/x'']\<rparr>"]
    redirect_outcome
    [of "example_net (ok_response 301 Map.empty) (Inr ()) (Inr True)"
        "''https://example.com/a/b?q=1''" "\<lparr>status_code = 301, headers = Map.empty\<rparr>"]
  by (simp add: example_net_def ok_response_def)

subsection \<open>The robots check\<close>

text \<open>
  C6. When the probe returns 200 and the robots policy of the host does not let the agent
  \<^verbatim>\<open>CoherenceBot\<close> fetch the URL, \<^verbatim>\<open>check_url\<close> returns success false, the observed code
  200 and the message \<^verbatim>\<open>Robot exclusion\<close>.
\<close>

theorem robots_exclusion_outcome:
  assumes "head_req nw u = Inr resp" and "status_code resp = 200"
    and "urlparse nw u = Inr uri"
    and "rp_read nw (robots_txt_of uri) = Inr rp"
    and "rp_crawl_delay nw rp ''*'' = Inr d"
    and "rp_can_fetch nw rp ''CoherenceBot'' u = Inr False"
  shows "check_url nw u = (False, 200, Str ''Robot exclusion'')"
  using assms(3-6) by (simp add: check_url_probe_200 [OF assms(1,2)] robots_branch_def)

theorem robots_exclusion_outcome_witness:
  "head_req (example_net (ok_response 200 Map.empty) (Inr ()) (Inr False))
     ''https://example.com/a/b?q=1'' = ok_response 200 Map.empty \<and>
   rp_can_fetch (example_net (ok_response 200 Map.empty) (Inr ()) (Inr False)) ()
     ''CoherenceBot'' ''https://example.com/a/b?q=1'' = Inr False \<and>
   check_url (example_net (ok_response 200 Map.empty) (Inr ()) (Inr False))
     ''https://example.com/a/b?q=1'' = (False, 200, Str ''Robot exclusion'')"
  using robots_exclusion_outcome
    [of "example_net (ok_response 200 Map.empty) (Inr ()) (Inr False)"
        "''https://example.com/a/b?q=1''" "\<lparr>status_code = 200, headers = Map.empty\<rparr>"
        example_uri "()" "()"]
  by (simp add: example_net_def ok_response_def robots_txt_of_def example_uri_def)

text \<open>
  C3, as the code has it. When the probe returns 200, the robots file that is read is
  \<^verbatim>\<open>scheme://netloc/robots.txt\<close> of the parsed URL, whatever its path, parameters, query
  and fragment. When reading it raises, the outcome is success false with the code 200
  and the message of the exception; the same holds when \<^verbatim>\<open>crawl_delay\<close> or \<^verbatim>\<open>can_fetch\<close>
  raises. The URL is a success only when \<^verbatim>\<open>can_fetch\<close> returns true.
\<close>

theorem robots_file_consulted:
  assumes "head_req nw u = Inr resp" and "status_code resp = 200"
    and "urlparse nw u = Inr uri"
  shows "robots_txt_of (uri\<lparr>path := p, params := x, query := q, fragment := f\<rparr>) =
           scheme uri @ ''://'' @ netloc uri @ ''/robots.txt'' \<and>
         check_url nw u =
           (case rp_read nw (scheme uri @ ''://'' @ netloc uri @ ''/robots.txt'') of
              Inl e \<Rightarrow> (False, 200, except_msg e)
            | Inr rp \<Rightarrow>
                (case rp_crawl_delay nw rp ''*'' of
                   Inl e \<Rightarrow> (False, 200, except_msg e)
                 | Inr d \<Rightarrow>
                     (case rp_can_fetch nw rp ''CoherenceBot'' u of
                        Inl e \<Rightarrow> (False, 200, except_msg e)
                      | Inr allowed \<Rightarrow>
                          if allowed then (True, 200, Str ''Accepted'')
                          else (False, 200, Str ''Robot exclusion''))))"
  using assms(3)
  by (simp add: check_url_probe_200 [OF assms(1,2)] robots_branch_def robots_txt_of_def
        split: sum.splits)

theorem robots_file_consulted_witness:
  "robots_txt_of
     (example_uri\<lparr>path := ''/other'', params := '''', query := '''', fragment := ''top''\<rparr>) =
     ''https://example.com/robots.txt'' \<and>
   check_url (example_net (ok_response 200 Map.empty) (Inl (Timeout ''timed out'')) (Inr True))
     ''https://example.com/a/b?q=1'' = (False, 200, Str ''Timeout after 30s'')"
  using robots_file_consulted
    [where nw = "example_net (ok_response 200 Map.empty) (Inl (Timeout ''timed out'')) (Inr True)"
       and u = "''https://example.com/a/b?q=1''"
       and resp = "\<lparr>status_code = 200, headers = Map.empty\<rparr>"
       and uri = example_uri and p = "''/other''" and x = "''''" and q = "''''"
       and f = "''top''"]
  by (simp add: example_net_def ok_response_def example_uri_def)

text \<open>
  The probe returns 200 and the fetch of \<^verbatim>\<open>https://example.com/robots.txt\<close> raises: the
  URL is not declared a success, the outcome is a failure with the code 200.
\<close>

theorem robots_fetch_failure_counterexample:
  "head_req (example_net (ok_response 200 Map.empty) (Inl (OtherException ''urlopen error''))
       (Inr True)) ''https://example.com/a/b?q=1'' = ok_response 200 Map.empty \<and>
   rp_read (example_net (ok_response 200 Map.empty) (Inl (OtherException ''urlopen error''))
       (Inr True)) ''https://example.com/robots.txt'' = Inl (OtherException ''urlopen error'') \<and>
   check_url (example_net (ok_response 200 Map.empty) (Inl (OtherException ''urlopen error''))
       (Inr True)) ''https://example.com/a/b?q=1'' =
     (False, 200, Exc (OtherException ''urlopen error''))"
  by (simp add: check_url_def try_body_def status_chain_def robots_branch_def Let_def
        example_net_def ok_response_def robots_txt_of_def example_uri_def)

subsection \<open>Totality\<close>

text \<open>
  C9. \<^verbatim>\<open>check_url\<close> returns its triple whatever the probe, \<^verbatim>\<open>urlparse\<close> and the robots
  parser do, raising included. Success is true exactly when the probe returned 200, the
  robots file was parsed and read, \<^verbatim>\<open>crawl_delay\<close> returned and \<^verbatim>\<open>can_fetch\<close> returned
  true; the triple is then \<^verbatim>\<open>[True, 200, "Accepted"]\<close>.
\<close>

theorem check_url_total:
  "(fst (check_url nw u) \<longleftrightarrow>
      (\<exists>resp uri rp d. head_req nw u = Inr resp \<and> status_code resp = 200 \<and>
         urlparse nw u = Inr uri \<and> rp_read nw (robots_txt_of uri) = Inr rp \<and>
         rp_crawl_delay nw rp ''*'' = Inr d \<and>
         rp_can_fetch nw rp ''CoherenceBot'' u = Inr True)) \<and>
   (fst (check_url nw u) \<longrightarrow> check_url nw u = (True, 200, Str ''Accepted''))"
proof (cases "head_req nw u")
  case (Inl e)
  then show ?thesis by (simp add: check_url_probe_raised)
next
  case (Inr resp)
  show ?thesis
  proof (cases "status_code resp = 200")
    case True
    show ?thesis
      using Inr True
      by (auto simp: check_url_probe_200 [OF Inr True] robots_branch_def Let_def
            split: sum.splits)
  next
    case False
    with Inr show ?thesis
      by (simp add: check_url_def try_body_def status_chain_def Let_def split: option.splits)
  qed
qed

theorem check_url_total_witness:
  "fst (check_url (example_net (ok_response 200 Map.empty) (Inr ()) (Inr True))
          ''https://example.com/a/b?q=1'') \<and>
   check_url (example_net (ok_response 200 Map.empty) (Inr ()) (Inr True))
     ''https://example.com/a/b?q=1'' = (True, 200, Str ''Accepted'')"
proof -
  let ?nw = "example_net (ok_response 200 Map.empty) (Inr ()) (Inr True)"
  let ?u = "''https://example.com/a/b?q=1''"
  have "head_req ?nw ?u = Inr \<lparr>status_code = 200, headers = Map.empty\<rparr> \<and>
        status_code \<lparr>status_code = 200, headers = Map.empty\<rparr> = 200 \<and>
        urlparse ?nw ?u = Inr example_uri \<and>
        rp_read ?nw (robots_txt_of example_uri) = Inr () \<and>
        rp_crawl_delay ?nw () ''*'' = Inr () \<and>
        rp_can_fetch ?nw () ''CoherenceBot'' ?u = Inr True"
    by (simp add: example_net_def ok_response_def robots_txt_of_def example_uri_def)
  then have "fst (check_url ?nw ?u)"
    using check_url_total [of ?nw ?u] by blast
  then show ?thesis
    using check_url_total [of ?nw ?u] by blast
qed

subsection \<open>The status classification\<close>






section \<open>Properties of \<^verbatim>\<open>main\<close>\<close>

subsection \<open>Counting the delivered seeds\<close>

lemma delivered_simps [simp]:
  "delivered [] = 0"
  "delivered (r # rs) = seeds_in r + delivered rs"
  "delivered (rs @ rs') = delivered rs + delivered rs'"
  by (simp_all add: delivered_def)



subsection \<open>The steps of the loops\<close>

lemma begin_page_fields [simp]:
  "count (begin_page c s) = count s"
  "successes (begin_page c s) = successes s"
  "failures (begin_page c s) = failures s"
  "retries (begin_page c s) = retries s"
  "tsv_file (begin_page c s) = tsv_file s"
  "page (begin_page c s) = page s + 1"
  by (simp_all add: begin_page_def Let_def)

lemma no_response_fields [simp]:
  "count (no_response e s) = count s"
  "successes (no_response e s) = successes s"
  "failures (no_response e s) = failures s"
  "retries (no_response e s) = retries s + 1"
  "tsv_file (no_response e s) = tsv_file s"
  "page (no_response e s) = page s"
  by (simp_all add: no_response_def)

lemma give_up_fields [simp]:
  "count (give_up e s) = count s"
  "successes (give_up e s) = successes s"
  "failures (give_up e s) = failures s"
  "retries (give_up e s) = 0"
  "tsv_file (give_up e s) = tsv_file s"
  "page (give_up e s) = page s"
  by (simp_all add: give_up_def)

lemma validate_seed_counters:
  "count (validate_seed w c s) = count s + 1 \<and>
   ((successes (validate_seed w c s) = successes s + 1 \<and>
     failures (validate_seed w c s) = failures s) \<or>
    (successes (validate_seed w c s) = successes s \<and>
     failures (validate_seed w c s) = failures s + 1))"
  by (simp add: validate_seed_def Let_def split: prod.splits)

lemma validate_seed_count [simp]: "count (validate_seed w c s) = count s + 1"
  using validate_seed_counters by blast





text \<open>One iteration of the \<^verbatim>\<open>while\<close> loop: the reply is no response, or it is a page.\<close>

lemma while_failed:
  assumes "\<not> truthy (get_seeds reply)"
  shows "while_endpoint lim w c (Some ep) (reply # replies) s =
     (if retries s + 1 > 3
      then Some (give_up ep (no_response ep (begin_page c s)), replies)
      else while_endpoint lim w c (Some ep) replies (no_response ep (begin_page c s)))"
  using assms by (simp add: Let_def)

lemma while_page:
  assumes "get_seeds reply = Some p" and "truthy (Some p)"
  shows "while_endpoint lim w c (Some ep) (reply # replies) s =
     (case pg_results p of
        None \<Rightarrow>
          while_endpoint lim w c (case pg_next p of Some nxt \<Rightarrow> nxt | None \<Rightarrow> None) replies
            (begin_page c s)
      | Some results \<Rightarrow>
          if lim > 0 \<and> count (for_results lim w results (begin_page c s)) \<ge> lim
          then Some (for_results lim w results (begin_page c s), replies)
          else while_endpoint lim w c (case pg_next p of Some nxt \<Rightarrow> nxt | None \<Rightarrow> None)
                 replies (for_results lim w results (begin_page c s)))"
  using assms by (simp add: Let_def del: truthy.simps split: option.split)


subsection \<open>The counters stay balanced\<close>



subsection \<open>The replies a loop uses\<close>











subsection \<open>The example run\<close>

lemma check_url_example_world:
  "check_url (example_world k) u =
     (if even k then (True, 200, Str ''Accepted'') else (False, 404, Str ''Not found''))"
  by (simp add: check_url_def try_body_def status_chain_def robots_branch_def Let_def
      example_world_def example_net_def ok_response_def robots_txt_of_def example_uri_def)



subsection \<open>The counters\<close>



subsection \<open>The limit of \<^verbatim>\<open>-n\<close>\<close>










subsection \<open>Pages without \<^verbatim>\<open>results\<close> or without \<^verbatim>\<open>next\<close>\<close>

text \<open>
  C10, as the code has it. Let a fetch return a JSON object. When the object is not
  empty and has no key \<^verbatim>\<open>'results'\<close>, the counters and the report stay as they are and
  the loop goes on with the object's \<^verbatim>\<open>'next'\<close> value. When the object is not empty and
  has no key \<^verbatim>\<open>'next'\<close>, its results are processed and the loop of the cluster ends
  without another fetch. The empty object is handled as a failed fetch is.
\<close>

theorem page_without_results_or_next:
  "(get_seeds reply = Some p \<and> truthy (Some p) \<and> pg_results p = None \<longrightarrow>
      while_endpoint lim w c (Some ep) (reply # replies) s =
        while_endpoint lim w c (case pg_next p of Some nxt \<Rightarrow> nxt | None \<Rightarrow> None) replies
          (begin_page c s) \<and>
      count (begin_page c s) = count s \<and> successes (begin_page c s) = successes s \<and>
      failures (begin_page c s) = failures s \<and> tsv_file (begin_page c s) = tsv_file s) \<and>
   (get_seeds reply = Some p \<and> truthy (Some p) \<and> pg_next p = None \<longrightarrow>
      while_endpoint lim w c (Some ep) (reply # replies) s =
        Some (case pg_results p of
                None \<Rightarrow> begin_page c s
              | Some results \<Rightarrow> for_results lim w results (begin_page c s),
              replies)) \<and>
   (get_seeds reply = Some p \<and> \<not> truthy (Some p) \<longrightarrow>
      while_endpoint lim w c (Some ep) (reply # replies) s =
        while_endpoint lim w c (Some ep) (GetRaised e # replies) s)"
proof (intro conjI impI)
  assume "get_seeds reply = Some p \<and> truthy (Some p) \<and> pg_results p = None"
  then have g: "get_seeds reply = Some p" and t: "truthy (Some p)"
    and r: "pg_results p = None"
    by blast+
  show "while_endpoint lim w c (Some ep) (reply # replies) s =
        while_endpoint lim w c (case pg_next p of Some nxt \<Rightarrow> nxt | None \<Rightarrow> None) replies
          (begin_page c s)"
    unfolding while_page [OF g t] r by (simp only: option.case)
next
  assume "get_seeds reply = Some p \<and> truthy (Some p) \<and> pg_next p = None"
  then have g: "get_seeds reply = Some p" and t: "truthy (Some p)"
    and nx: "pg_next p = None"
    by blast+
  show "while_endpoint lim w c (Some ep) (reply # replies) s =
        Some (case pg_results p of
                None \<Rightarrow> begin_page c s
              | Some results \<Rightarrow> for_results lim w results (begin_page c s),
              replies)"
    unfolding while_page [OF g t] nx by (simp split: option.splits)
next
  assume "get_seeds reply = Some p \<and> \<not> truthy (Some p)"
  then have f1: "\<not> truthy (get_seeds reply)" and f2: "\<not> truthy (get_seeds (GetRaised e))"
    by simp_all
  show "while_endpoint lim w c (Some ep) (reply # replies) s =
        while_endpoint lim w c (Some ep) (GetRaised e # replies) s"
    unfolding while_failed [OF f1] while_failed [OF f2] ..
qed simp_all

theorem page_without_results_or_next_witness:
  "get_seeds (page_reply (Some (Some ''p2'')) None) =
     Some \<lparr>pg_next = Some (Some ''p2''), pg_results = None, pg_other_keys = []\<rparr> \<and>
   while_endpoint 0 example_world ''us-east-2'' (Some ''p1'')
       [page_reply (Some (Some ''p2'')) None, page_reply None (Some [example_seed])]
       init_state =
     while_endpoint 0 example_world ''us-east-2'' (Some ''p2'')
       [page_reply None (Some [example_seed])] (begin_page ''us-east-2'' init_state) \<and>
   get_seeds (page_reply None (Some [])) =
     Some \<lparr>pg_next = None, pg_results = Some [], pg_other_keys = []\<rparr> \<and>
   while_endpoint 0 example_world ''us-east-2'' (Some ''p1'')
       [page_reply None (Some []), failed_reply] init_state =
     Some (begin_page ''us-east-2'' init_state, [failed_reply])"
  using page_without_results_or_next
    [where reply = "page_reply (Some (Some ''p2'')) None"
       and p = "\<lparr>pg_next = Some (Some ''p2''), pg_results = None, pg_other_keys = []\<rparr>"
       and lim = 0 and w = example_world and c = "''us-east-2''" and ep = "''p1''"
       and replies = "[page_reply None (Some [example_seed])]" and s = init_state]
    page_without_results_or_next
    [where reply = "page_reply None (Some [])"
       and p = "\<lparr>pg_next = None, pg_results = Some [], pg_other_keys = []\<rparr>"
       and lim = 0 and w = example_world and c = "''us-east-2''" and ep = "''p1''"
       and replies = "[failed_reply]" and s = init_state]
  by (simp add: page_reply_def)

text \<open>
  The first reply is the empty object, which has no key \<^verbatim>\<open>'next'\<close>. The loop of the
  cluster does not end there: it counts a retry, fetches again (page 2) and validates the
  seed of the second reply.
\<close>

theorem empty_object_counterexample:
  "get_seeds (page_reply None None) =
     Some \<lparr>pg_next = None, pg_results = None, pg_other_keys = []\<rparr> \<and>
   map_option (\<lambda>(s, unused). (page s, retries s, count s, unused))
     (while_endpoint 0 example_world ''us-east-2'' (Some ''p1'')
        [page_reply None None, page_reply None (Some [example_seed])] init_state) =
     Some (2, 1, 1, [])"
  by (simp add: page_reply_def init_state_def Let_def begin_page_def no_response_def
        validate_seed_def check_url_example_world)

subsection \<open>Retries of a page fetch\<close>

text \<open>
  From a retry counter of 0, three failures in a row are each followed by another fetch
  of the same cursor, and the fourth ends the loop of the cluster with the counter back
  at 0 and the seed counters untouched.
\<close>

lemma four_failures_in_a_row:
  assumes "retries s = 0"
    and "\<not> truthy (get_seeds r1)" and "\<not> truthy (get_seeds r2)"
    and "\<not> truthy (get_seeds r3)" and "\<not> truthy (get_seeds r4)"
  shows "while_endpoint lim w c (Some ep) (r1 # r2 # r3 # r4 # replies) s =
     Some (give_up ep (no_response ep (begin_page c (no_response ep (begin_page c
             (no_response ep (begin_page c (no_response ep (begin_page c s)))))))),
           replies)"
  using assms by (simp add: while_failed)

text \<open>
  C1. The counter \<^verbatim>\<open>retries\<close> is set back to 0 only when a cluster is given up, not when
  a fetch succeeds. In this run every cursor fails once and is then served; the fourth
  failure, the first one for the cursor \<^verbatim>\<open>p4\<close>, gives the cluster up.
\<close>

theorem interleaved_failures_give_up:
  "map_option (\<lambda>(s, unused). (stdout s, unused))
     (main \<lparr>endpoint = ''p1'', n = 0\<rparr> example_world interleaved_replies) =
   Some ([Checking ''us-east-2'' 1 0 0, NoResponse ''p1'',
          Checking ''us-east-2'' 2 0 0,
          Checking ''us-east-2'' 3 0 0, NoResponse ''p2'',
          Checking ''us-east-2'' 4 0 0,
          Checking ''us-east-2'' 5 0 0, NoResponse ''p3'',
          Checking ''us-east-2'' 6 0 0,
          Checking ''us-east-2'' 7 0 0, NoResponse ''p4'', FailureAfterThreeRetries ''p4'',
          Checking ''eu-central-1'' 8 0 0,
          Checking ''ap-northeast-1'' 9 0 0,
          Processed 0 0 0], [])"
  by (simp add: main_def init_state_def clusters_def begin_page_def no_response_def give_up_def
        interleaved_replies_def page_reply_def failed_reply_def Let_def)

end
